theory Spec2Isabelle
  imports Main "HOL-Library.Word" "HOL-Library.Mapping" "HOL-Library.RBT_Mapping"
begin

section \<open>The platform the listener is written against\<close>

text \<open>
  \<^verbatim>\<open>UnixSignalListener.hpp\<close> is written against \<^verbatim>\<open>signal.h\<close>. The calls it makes are
  modelled here the way POSIX and glibc on Linux document them. A signal set
  (\<^verbatim>\<open>sigset_t\<close>) is a set of signal numbers.
\<close>

type_synonym sigset_t = "int set"

definition NSIG :: int where "NSIG = 65"

definition SIGINT :: int where "SIGINT = 2"
definition SIGKILL :: int where "SIGKILL = 9"
definition SIGUSR1 :: int where "SIGUSR1 = 10"
definition SIGTERM :: int where "SIGTERM = 15"
definition SIGSTOP :: int where "SIGSTOP = 19"

definition EINTR :: int where "EINTR = 4"
definition EAGAIN :: int where "EAGAIN = 11"
definition EINVAL :: int where "EINVAL = 22"

definition SIG_BLOCK :: int where "SIG_BLOCK = 0"
definition SIG_UNBLOCK :: int where "SIG_UNBLOCK = 1"
definition SIG_SETMASK :: int where "SIG_SETMASK = 2"

lemmas signal_h_defs =
  NSIG_def SIGINT_def SIGKILL_def SIGUSR1_def SIGTERM_def SIGSTOP_def
  EINTR_def EAGAIN_def EINVAL_def SIG_BLOCK_def SIG_UNBLOCK_def SIG_SETMASK_def

text \<open>
  The signal numbers \<^verbatim>\<open>sigaddset\<close> accepts: \<open>1 .. NSIG - 1\<close>, without the two
  real-time signals glibc keeps for itself (32 and 33).
\<close>

definition sig_valid :: "int \<Rightarrow> bool" where
  "sig_valid signo \<longleftrightarrow> 0 < signo \<and> signo < NSIG \<and> signo \<noteq> 32 \<and> signo \<noteq> 33"

definition sigemptyset :: sigset_t where
  "sigemptyset = {}"

definition sigfillset :: sigset_t where
  "sigfillset = Set.filter sig_valid (set [1..NSIG - 1])"

text \<open>\<^verbatim>\<open>sigaddset\<close> returns \<open>0\<close> and adds the signal, or returns \<open>-1\<close> and leaves the set alone.\<close>

definition sigaddset :: "sigset_t \<Rightarrow> int \<Rightarrow> int \<times> sigset_t" where
  "sigaddset sset signo =
     (if sig_valid signo then (0, insert signo sset) else (- 1, sset))"

definition sigisemptyset :: "sigset_t \<Rightarrow> int" where
  "sigisemptyset sset = (if sset = {} then 1 else 0)"

text \<open>
  \<^verbatim>\<open>pthread_sigmask how set\<close> on a thread whose blocked signals are \<open>old\<close>: the return code
  and the new set of blocked signals. \<^verbatim>\<open>SIGKILL\<close> and \<^verbatim>\<open>SIGSTOP\<close> cannot be blocked, an attempt
  is ignored without an error. An unknown \<open>how\<close> fails with \<^verbatim>\<open>EINVAL\<close> and changes nothing.
\<close>

definition pthread_sigmask :: "int \<Rightarrow> sigset_t \<Rightarrow> sigset_t \<Rightarrow> int \<times> sigset_t" where
  "pthread_sigmask how sset old =
     (if how = SIG_SETMASK then (0, sset - {SIGKILL, SIGSTOP})
      else if how = SIG_BLOCK then (0, (old \<union> sset) - {SIGKILL, SIGSTOP})
      else if how = SIG_UNBLOCK then (0, old - sset)
      else (EINVAL, old))"







record timespec =
  tv_sec :: int
  tv_nsec :: int

section \<open>The listener object\<close>

text \<open>
  A \<^verbatim>\<open>Handler\<close> is a \<^verbatim>\<open>std::function<void()>\<close>. It is either empty (what \<^verbatim>\<open>nullptr\<close>
  converts to, \<open>None\<close> here) or holds a callable. A callable is user code; it is modelled by
  its effect on the part of the program state that is not the listener and not the signal
  mask, the world \<open>'w\<close>. Calling an empty \<^verbatim>\<open>std::function\<close> throws
  \<^verbatim>\<open>std::bad_function_call\<close>.
\<close>

type_synonym 'w Handler = "('w \<Rightarrow> 'w) option"

datatype exn = runtime_error string | bad_function_call

text \<open>
  \<^verbatim>\<open>mHandlers\<close> is a \<^verbatim>\<open>std::map\<close> from the signal number to the pair of the handler and
  of the terminate flag: at most one entry for a key.
\<close>

record 'w UnixSignalListener =
  mHandlers :: "(int, 'w Handler \<times> bool) mapping"
  mTimeoutHandler :: "'w Handler"
  mSetHandlers :: sigset_t
  mTimeoutSpec :: timespec
  mIsInited :: bool

text \<open>The calling thread: the signals it blocks, and the world the handlers act on.\<close>

record 'w proc =
  sigmask :: sigset_t
  world :: 'w

text \<open>
  A member function either returns a value or throws; in both cases the state it leaves
  behind is kept, as an exception does not undo the assignments made before it.
\<close>

datatype ('r, 's) result = Return 'r 's | Throw exn 's

text \<open>The constructor, with the default member initialisers of the class.\<close>

definition new_UnixSignalListener :: "'w UnixSignalListener" where
  "new_UnixSignalListener =
     \<lparr> mHandlers = Mapping.empty,
       mTimeoutHandler = Some (\<lambda>w. w),
       mSetHandlers = sigemptyset,
       mTimeoutSpec = \<lparr> tv_sec = 600, tv_nsec = 0 \<rparr>,
       mIsInited = False \<rparr>"

definition init ::
  "'w UnixSignalListener \<Rightarrow> 'w proc \<Rightarrow> (unit, 'w UnixSignalListener \<times> 'w proc) result" where
  "init st p =
     (case pthread_sigmask SIG_SETMASK sigfillset (sigmask p) of
        (rc, m) \<Rightarrow>
          if rc \<noteq> 0
          then Throw (runtime_error ''Failed to block all signals'') (st, p\<lparr>sigmask := m\<rparr>)
          else Return () (st\<lparr>mIsInited := True\<rparr>, p\<lparr>sigmask := m\<rparr>))"

definition setHandler ::
  "'w UnixSignalListener \<Rightarrow> int \<Rightarrow> 'w Handler \<Rightarrow> bool \<Rightarrow> (unit, 'w UnixSignalListener) result" where
  "setHandler st signum handler terminate =
     (case sigaddset (mSetHandlers st) signum of
        (rc, sset) \<Rightarrow>
          if rc \<noteq> 0
          then Throw (runtime_error ''Not valid signal'') (st\<lparr>mSetHandlers := sset\<rparr>)
          else Return ()
                 (st\<lparr>mSetHandlers := sset,
                     mHandlers := Mapping.update signum (handler, terminate) (mHandlers st)\<rparr>))"

definition setTerminateSignal ::
  "'w UnixSignalListener \<Rightarrow> int \<Rightarrow> (unit, 'w UnixSignalListener) result" where
  "setTerminateSignal st signum = setHandler st signum None True"

definition setSigIgnore ::
  "'w UnixSignalListener \<Rightarrow> int \<Rightarrow> (unit, 'w UnixSignalListener) result" where
  "setSigIgnore st signum = setHandler st signum None False"

text \<open>\<^verbatim>\<open>timeout\<close> is a \<^verbatim>\<open>uint\<close>; \<^verbatim>\<open>tv_sec\<close> is wide enough to hold every value of it.\<close>

definition setTimeoutHandler ::
  "'w UnixSignalListener \<Rightarrow> 32 word \<Rightarrow> 'w Handler \<Rightarrow> 'w UnixSignalListener" where
  "setTimeoutHandler st timeout handler =
     st\<lparr>mTimeoutSpec := (mTimeoutSpec st)\<lparr>tv_sec := uint timeout\<rparr>,
        mTimeoutHandler := handler\<rparr>"

definition checkRequirements :: "'w UnixSignalListener \<Rightarrow> (unit, unit) result" where
  "checkRequirements st =
     (if \<not> mIsInited st
      then Throw (runtime_error ''UnixSignalListener was not initialized'') ()
      else if sigisemptyset (mSetHandlers st) = 1 \<or> Mapping.is_empty (mHandlers st)
      then Throw (runtime_error ''There are no signal handlers to listen'') ()
      else Return () ())"

text \<open>
  \<^verbatim>\<open>sigtimedwaitErrorHandler\<close> reads \<^verbatim>\<open>errno\<close> as the \<^verbatim>\<open>sigtimedwait\<close> call just made
  left it; that value is the argument \<open>errno\<close>.
\<close>

definition sigtimedwaitErrorHandler ::
  "'w UnixSignalListener \<Rightarrow> int \<Rightarrow> 'w proc \<Rightarrow> (unit, 'w proc) result" where
  "sigtimedwaitErrorHandler st errno p =
     (if errno = EAGAIN then
        (case mTimeoutHandler st of
           None \<Rightarrow> Throw bad_function_call p
         | Some f \<Rightarrow> Return () (p\<lparr>world := f (world p)\<rparr>))
      else if errno = EINTR then Return () p
      else if errno = EINVAL then Throw (runtime_error ''Timeout invalid'') p
      else Return () p)"

definition signalProcessing ::
  "'w UnixSignalListener \<Rightarrow> int \<Rightarrow> 'w proc \<Rightarrow> (int, 'w proc) result" where
  "signalProcessing st signum p =
     (case Mapping.lookup (mHandlers st) signum of
        None \<Rightarrow> Throw (runtime_error ''We should never be here! Check the code'') p
      | Some (handler, terminate) \<Rightarrow>
          (let p' = (case handler of None \<Rightarrow> p | Some f \<Rightarrow> p\<lparr>world := f (world p)\<rparr>)
           in if terminate then Return 1 p' else Return 0 p'))"

section \<open>The wait loop\<close>

text \<open>
  \<^verbatim>\<open>listen\<close> loops on \<^verbatim>\<open>sigtimedwait\<close>, whose results come from outside the program. The
  loop is run against the list of results that the successive \<^verbatim>\<open>sigtimedwait\<close> calls give,
  each a pair of the return value and of \<^verbatim>\<open>errno\<close> after the call. A run of the loop ends in
  one of three ways: \<^verbatim>\<open>listen\<close> returned, \<^verbatim>\<open>listen\<close> threw, or every result of the list was
  consumed and the thread sits in the next \<^verbatim>\<open>sigtimedwait\<close>. Each outcome carries the results
  not consumed and the state of the thread.
\<close>

type_synonym wait_result = "int \<times> int"

datatype 's run = Finished 's | Aborted exn 's | Waiting 's

fun run_state :: "'s run \<Rightarrow> 's" where
  "run_state (Finished s) = s"
| "run_state (Aborted e s) = s"
| "run_state (Waiting s) = s"

fun listen_loop ::
  "'w UnixSignalListener \<Rightarrow> wait_result list \<Rightarrow> 'w proc \<Rightarrow> (wait_result list \<times> 'w proc) run" where
  "listen_loop st [] p = Waiting ([], p)"
| "listen_loop st ((ret, errno) # evs) p =
     (if ret \<le> 0 then
        (case sigtimedwaitErrorHandler st errno p of
           Throw e p' \<Rightarrow> Aborted e (evs, p')
         | Return u p' \<Rightarrow> listen_loop st evs p')
      else
        (case signalProcessing st ret p of
           Throw e p' \<Rightarrow> Aborted e (evs, p')
         | Return r p' \<Rightarrow> if r = 1 then Finished (evs, p') else listen_loop st evs p'))"

definition listen ::
  "'w UnixSignalListener \<Rightarrow> wait_result list \<Rightarrow> 'w proc \<Rightarrow> (wait_result list \<times> 'w proc) run" where
  "listen st evs p =
     (case checkRequirements st of
        Throw e u \<Rightarrow> Aborted e (evs, p)
      | Return u v \<Rightarrow>
          (case pthread_sigmask SIG_SETMASK (mSetHandlers st) (sigmask p) of
             (rc, m) \<Rightarrow>
               if rc \<noteq> 0
               then Aborted (runtime_error ''Failed to set mask'') (evs, p\<lparr>sigmask := m\<rparr>)
               else listen_loop st evs (p\<lparr>sigmask := m\<rparr>)))"


section \<open>Clients of the listener\<close>

text \<open>
  A client configures the listener through its public member functions before it calls
  \<^verbatim>\<open>listen\<close>. A call that throws leaves the object as it was at the throw, and the client
  may go on using it.
\<close>

datatype 'w call =
    Init
  | SetHandler int "'w Handler" bool
  | SetTerminateSignal int
  | SetSigIgnore int
  | SetTimeoutHandler "32 word" "'w Handler"

fun perform ::
  "'w call \<Rightarrow> 'w UnixSignalListener \<times> 'w proc \<Rightarrow> 'w UnixSignalListener \<times> 'w proc" where
  "perform Init (st, p) = (case init st p of Return u s \<Rightarrow> s | Throw e s \<Rightarrow> s)"
| "perform (SetHandler signum h t) (st, p) =
     (case setHandler st signum h t of Return u st' \<Rightarrow> (st', p) | Throw e st' \<Rightarrow> (st', p))"
| "perform (SetTerminateSignal signum) (st, p) =
     (case setTerminateSignal st signum of Return u st' \<Rightarrow> (st', p) | Throw e st' \<Rightarrow> (st', p))"
| "perform (SetSigIgnore signum) (st, p) =
     (case setSigIgnore st signum of Return u st' \<Rightarrow> (st', p) | Throw e st' \<Rightarrow> (st', p))"
| "perform (SetTimeoutHandler timeout h) (st, p) = (setTimeoutHandler st timeout h, p)"

definition configure ::
  "'w call list \<Rightarrow> 'w proc \<Rightarrow> 'w UnixSignalListener \<times> 'w proc" where
  "configure cs p = fold perform cs (new_UnixSignalListener, p)"

text \<open>
  \<^verbatim>\<open>main\<close> of \<^verbatim>\<open>example.cpp\<close>: \<^verbatim>\<open>sl.init()\<close>, one terminating handler for \<^verbatim>\<open>SIGTERM\<close>, then
  \<^verbatim>\<open>sl.listen()\<close>. The two worker threads are part of the world the handler acts on.
\<close>

definition example_setup :: "('w \<Rightarrow> 'w) \<Rightarrow> 'w proc \<Rightarrow> 'w UnixSignalListener \<times> 'w proc" where
  "example_setup h p = configure [Init, SetHandler SIGTERM (Some h) True] p"

definition example_main ::
  "('w \<Rightarrow> 'w) \<Rightarrow> wait_result list \<Rightarrow> 'w proc \<Rightarrow> (wait_result list \<times> 'w proc) run" where
  "example_main h evs p = (case example_setup h p of (st, p') \<Rightarrow> listen st evs p')"

text \<open>
  The convenience registrations in the words of the specification:
  \<^verbatim>\<open>registerHandler(signal, noop, terminate)\<close>, where the registry entry's callback is
  optional and \<open>noop\<close> is the absent callback ("ignore, do nothing").
\<close>

definition noop :: "'w Handler" where
  "noop = None"

definition spec_registerTerminationSignal ::
  "'w UnixSignalListener \<Rightarrow> int \<Rightarrow> (unit, 'w UnixSignalListener) result" where
  "spec_registerTerminationSignal st signal = setHandler st signal noop True"

definition spec_registerIgnoredSignal ::
  "'w UnixSignalListener \<Rightarrow> int \<Rightarrow> (unit, 'w UnixSignalListener) result" where
  "spec_registerIgnoredSignal st signal = setHandler st signal noop False"

text \<open>
  The signal set and the registry agree when the signals of the one are the keys of the
  other. \<open>internal_error\<close> is what \<^verbatim>\<open>signalProcessing\<close> throws when they do not.
\<close>

definition in_step :: "'w UnixSignalListener \<Rightarrow> bool" where
  "in_step st \<longleftrightarrow> mSetHandlers st = Mapping.keys (mHandlers st)"

definition internal_error :: exn where
  "internal_error = runtime_error ''We should never be here! Check the code''"

section \<open>Basic facts\<close>

lemma sigaddset_valid: "sig_valid s \<Longrightarrow> sigaddset S s = (0, insert s S)"
  by (simp add: sigaddset_def)

lemma sigaddset_invalid: "\<not> sig_valid s \<Longrightarrow> sigaddset S s = (- 1, S)"
  by (simp add: sigaddset_def)

lemma sig_valid_pos: "sig_valid s \<Longrightarrow> 0 < s"
  by (simp add: sig_valid_def)

lemma setHandler_valid:
  "sig_valid s \<Longrightarrow>
   setHandler st s h t =
     Return () (st\<lparr>mSetHandlers := insert s (mSetHandlers st),
                   mHandlers := Mapping.update s (h, t) (mHandlers st)\<rparr>)"
  by (simp add: setHandler_def sigaddset_valid)

lemma setHandler_invalid:
  "\<not> sig_valid s \<Longrightarrow> setHandler st s h t = Throw (runtime_error ''Not valid signal'') st"
  by (simp add: setHandler_def sigaddset_invalid)

lemma signalProcessing_entry:
  "Mapping.lookup (mHandlers st) s = Some (h, t) \<Longrightarrow>
   signalProcessing st s p =
     Return (if t then 1 else 0) (case h of None \<Rightarrow> p | Some f \<Rightarrow> p\<lparr>world := f (world p)\<rparr>)"
  by (simp add: signalProcessing_def)

lemma checkRequirements_cases:
  "checkRequirements st = Return () () \<or> (\<exists>e. checkRequirements st = Throw e ())"
  by (simp add: checkRequirements_def)

lemma listen_ready:
  "checkRequirements st = Return () () \<Longrightarrow>
   listen st evs p = listen_loop st evs (p\<lparr>sigmask := mSetHandlers st - {SIGKILL, SIGSTOP}\<rparr>)"
  by (simp add: listen_def pthread_sigmask_def)

lemma listen_not_ready:
  "checkRequirements st = Throw e () \<Longrightarrow> listen st evs p = Aborted e (evs, p)"
  by (simp add: listen_def)

subsection \<open>The loop, one result of \<^verbatim>\<open>sigtimedwait\<close> after the other\<close>

lemma listen_loop_append:
  "listen_loop st pre p = Waiting ([], p') \<Longrightarrow>
   listen_loop st (pre @ evs) p = listen_loop st evs p'"
proof (induction pre arbitrary: p)
  case Nil
  then show ?case by simp
next
  case (Cons ev pre)
  obtain ret errno where ev: "ev = (ret, errno)" by (cases ev)
  from Cons.prems show ?case
    unfolding ev
    by (auto split: if_splits result.splits intro: Cons.IH)
qed

lemma listen_append:
  assumes "listen st pre p = Waiting ([], p')"
  shows "listen st (pre @ evs) p = listen_loop st evs p'"
proof -
  from checkRequirements_cases [of st] show ?thesis
  proof
    assume ok: "checkRequirements st = Return () ()"
    with assms show ?thesis
      by (simp add: listen_ready listen_loop_append)
  next
    assume "\<exists>e. checkRequirements st = Throw e ()"
    then obtain e where "checkRequirements st = Throw e ()" ..
    with assms show ?thesis
      by (simp add: listen_not_ready)
  qed
qed

lemma listen_loop_sigmask:
  "sigmask (snd (run_state (listen_loop st evs p))) = sigmask p"
proof (induction evs arbitrary: p)
  case Nil
  show ?case by simp
next
  case (Cons ev evs)
  obtain ret errno where ev: "ev = (ret, errno)" by (cases ev)
  show ?case
    unfolding ev
    by (auto simp: Cons.IH sigtimedwaitErrorHandler_def signalProcessing_def Let_def
             split: result.splits option.splits if_splits)
qed

lemma timeout_with_callback_continues:
  assumes "ret \<le> 0" and "mTimeoutHandler st = Some f"
    and "listen st pre p = Waiting ([], p')"
  shows "listen st (pre @ (ret, EAGAIN) # rest) p = listen_loop st rest (p'\<lparr>world := f (world p')\<rparr>)"
  using assms by (simp add: listen_append sigtimedwaitErrorHandler_def)

subsection \<open>The signal set and the registry are updated together\<close>

lemma in_step_new: "in_step new_UnixSignalListener"
  by (simp add: in_step_def new_UnixSignalListener_def sigemptyset_def)

lemma in_step_perform: "in_step (fst s) \<Longrightarrow> in_step (fst (perform c s))"
proof (cases s)
  case (Pair st p)
  assume "in_step (fst s)"
  with Pair have inv: "mSetHandlers st = Mapping.keys (mHandlers st)"
    by (simp add: in_step_def)
  have reg: "in_step (case setHandler st n h t of Return u st' \<Rightarrow> st' | Throw e st' \<Rightarrow> st')"
    for n h t
    using inv by (cases "sig_valid n") (simp_all add: setHandler_valid setHandler_invalid in_step_def)
  show ?thesis
  proof (cases c)
    case Init
    with Pair inv show ?thesis
      by (simp add: init_def pthread_sigmask_def in_step_def)
  next
    case (SetHandler n h t)
    with Pair reg [of n h t] show ?thesis
      by (simp split: result.splits)
  next
    case (SetTerminateSignal n)
    with Pair reg [of n None True] show ?thesis
      by (simp add: setTerminateSignal_def split: result.splits)
  next
    case (SetSigIgnore n)
    with Pair reg [of n None False] show ?thesis
      by (simp add: setSigIgnore_def split: result.splits)
  next
    case (SetTimeoutHandler d h)
    with Pair inv show ?thesis
      by (simp add: setTimeoutHandler_def in_step_def)
  qed
qed

lemma in_step_fold: "in_step (fst s) \<Longrightarrow> in_step (fst (fold perform cs s))"
  by (induction cs arbitrary: s) (simp_all add: in_step_perform)

lemma in_step_configure: "in_step (fst (configure cs p))"
  by (simp add: configure_def in_step_fold in_step_new)

lemma listen_loop_no_internal_error:
  assumes "mSetHandlers st \<subseteq> Mapping.keys (mHandlers st)"
    and "\<forall>ev \<in> set evs. 0 < fst ev \<longrightarrow> fst ev \<in> mSetHandlers st"
  shows "listen_loop st evs p \<noteq> Aborted internal_error s"
  using assms(2)
proof (induction evs arbitrary: p)
  case Nil
  show ?case by simp
next
  case (Cons ev evs)
  obtain ret errno where ev: "ev = (ret, errno)" by (cases ev)
  from Cons.prems have rest: "\<forall>ev \<in> set evs. 0 < fst ev \<longrightarrow> fst ev \<in> mSetHandlers st"
    by simp
  note IH = Cons.IH [OF rest]
  show ?case
  proof (cases "ret \<le> 0")
    case True
    then show ?thesis
      unfolding ev using IH
      by (auto simp: sigtimedwaitErrorHandler_def internal_error_def
               split: option.splits if_splits)
  next
    case False
    with Cons.prems ev assms(1) have "ret \<in> Mapping.keys (mHandlers st)"
      by auto
    then obtain h t where "Mapping.lookup (mHandlers st) ret = Some (h, t)"
      by (auto simp: keys_dom_lookup)
    with False show ?thesis
      unfolding ev using IH
      by (simp add: signalProcessing_entry)
  qed
qed


lemma checkRequirements_not_internal:
  "checkRequirements st \<noteq> Throw internal_error u"
  by (simp add: checkRequirements_def internal_error_def)

lemma checkRequirements_ready:
  "mIsInited st \<Longrightarrow> mSetHandlers st \<noteq> {} \<Longrightarrow> \<not> Mapping.is_empty (mHandlers st) \<Longrightarrow>
   checkRequirements st = Return () ()"
  by (simp add: checkRequirements_def sigisemptyset_def)

lemma example_setup_eval:
  "example_setup h p =
     (\<lparr> mHandlers = Mapping.update SIGTERM (Some h, True) Mapping.empty,
        mTimeoutHandler = Some (\<lambda>w. w),
        mSetHandlers = {SIGTERM},
        mTimeoutSpec = \<lparr> tv_sec = 600, tv_nsec = 0 \<rparr>,
        mIsInited = True \<rparr>,
      p\<lparr>sigmask := sigfillset - {SIGKILL, SIGSTOP}\<rparr>)"
  by (simp add: example_setup_def configure_def init_def pthread_sigmask_def setHandler_def
        sigaddset_def sig_valid_def new_UnixSignalListener_def sigemptyset_def
        SIGTERM_def NSIG_def)

lemma SIGINT_in_sigfillset: "SIGINT \<in> sigfillset"
  by (simp add: sigfillset_def sig_valid_def signal_h_defs)



section \<open>Registration\<close>

text \<open>
  C10. A registration of an invalid signal number fails and leaves the listener exactly
  as it was: \<^verbatim>\<open>sigaddset\<close> rejects the number before \<^verbatim>\<open>mHandlers\<close> is assigned, and a
  rejected \<^verbatim>\<open>sigaddset\<close> does not change \<^verbatim>\<open>mSetHandlers\<close>. So neither the signal set nor
  the registry has gained an entry for the signal after the throw.
\<close>

theorem failed_registration_changes_nothing:
  assumes "\<not> sig_valid s"
  shows "setHandler st s h t = Throw (runtime_error ''Not valid signal'') st"
  using assms by (rule setHandler_invalid)

theorem failed_registration_changes_nothing_witness:
  "\<not> sig_valid 0 \<and>
   setHandler (new_UnixSignalListener :: nat UnixSignalListener) 0 (Some Suc) True =
     Throw (runtime_error ''Not valid signal'') new_UnixSignalListener"
  using failed_registration_changes_nothing
    [of 0 "new_UnixSignalListener :: nat UnixSignalListener" "Some Suc" True]
  by (simp add: sig_valid_def)

text \<open>
  C4. Registering a valid signal \<open>s\<close> with \<open>(A, tA)\<close> and then with \<open>(B, tB)\<close> succeeds both
  times and ends in the state that registering \<open>(B, tB)\<close> alone gives: the one entry of
  \<open>s\<close> holds \<open>(B, tB)\<close>, and dispatching \<open>s\<close> in that state runs \<open>B\<close> (when it is not empty)
  once and nothing else.
\<close>

theorem reregistration_last_write_wins:
  assumes "sig_valid s"
  shows "\<exists>st1 st2.
           setHandler st s A tA = Return () st1 \<and>
           setHandler st1 s B tB = Return () st2 \<and>
           setHandler st s B tB = Return () st2 \<and>
           Mapping.lookup (mHandlers st2) s = Some (B, tB) \<and>
           signalProcessing st2 s p =
             Return (if tB then 1 else 0)
               (case B of None \<Rightarrow> p | Some f \<Rightarrow> p\<lparr>world := f (world p)\<rparr>)"
proof -
  let ?st1 = "st\<lparr>mSetHandlers := insert s (mSetHandlers st),
                  mHandlers := Mapping.update s (A, tA) (mHandlers st)\<rparr>"
  let ?st2 = "st\<lparr>mSetHandlers := insert s (mSetHandlers st),
                  mHandlers := Mapping.update s (B, tB) (mHandlers st)\<rparr>"
  have 1: "setHandler st s A tA = Return () ?st1"
    using assms by (rule setHandler_valid)
  have 2: "setHandler ?st1 s B tB = Return () ?st2"
    using assms by (simp add: setHandler_valid update_update)
  have 3: "setHandler st s B tB = Return () ?st2"
    using assms by (rule setHandler_valid)
  have 4: "Mapping.lookup (mHandlers ?st2) s = Some (B, tB)"
    by simp
  from 1 2 3 4 signalProcessing_entry [OF 4, of p] show ?thesis
    by blast
qed

theorem reregistration_last_write_wins_witness:
  "sig_valid SIGUSR1 \<and>
   (\<exists>st1 st2.
      setHandler (new_UnixSignalListener :: nat UnixSignalListener) SIGUSR1 (Some Suc) True
        = Return () st1 \<and>
      setHandler st1 SIGUSR1 (Some (plus 2)) False = Return () st2 \<and>
      setHandler new_UnixSignalListener SIGUSR1 (Some (plus 2)) False = Return () st2 \<and>
      Mapping.lookup (mHandlers st2) SIGUSR1 = Some (Some (plus 2), False) \<and>
      signalProcessing st2 SIGUSR1 \<lparr>sigmask = {SIGUSR1}, world = 5\<rparr>
        = Return 0 \<lparr>sigmask = {SIGUSR1}, world = 7\<rparr>)"
proof -
  have v: "sig_valid SIGUSR1"
    by (simp add: sig_valid_def signal_h_defs)
  from reregistration_last_write_wins
    [OF v, of "new_UnixSignalListener :: nat UnixSignalListener" "Some Suc" True
       "Some (plus 2)" False "\<lparr>sigmask = {SIGUSR1}, world = 5\<rparr>"]
  show ?thesis using v by simp
qed

text \<open>
  C7. \<^verbatim>\<open>setTerminateSignal\<close> and \<^verbatim>\<open>setSigIgnore\<close> return what the specification's
  \<^verbatim>\<open>registerHandler(signal, noop, true)\<close> and \<^verbatim>\<open>registerHandler(signal, noop, false)\<close> return,
  state and outcome alike, for every signal number. For a valid signal the termination
  registration succeeds, and when that signal is delivered the loop stops at once with the
  thread's state untouched: no callback has run.
\<close>

theorem convenience_registrations:
  "setTerminateSignal st s = spec_registerTerminationSignal st s \<and>
   setSigIgnore st s = spec_registerIgnoredSignal st s \<and>
   (sig_valid s \<longrightarrow>
      (\<exists>st'. setTerminateSignal st s = Return () st' \<and>
             listen_loop st' ((s, e) # rest) p = Finished (rest, p)))"
proof -
  have "listen_loop
          (st\<lparr>mSetHandlers := insert s (mSetHandlers st),
              mHandlers := Mapping.update s (None, True) (mHandlers st)\<rparr>)
          ((s, e) # rest) p = Finished (rest, p)"
    if "sig_valid s"
    using sig_valid_pos [OF that] by (simp add: signalProcessing_def)
  then show ?thesis
    by (simp add: setTerminateSignal_def setSigIgnore_def spec_registerTerminationSignal_def
          spec_registerIgnoredSignal_def noop_def setHandler_valid)
qed

theorem convenience_registrations_witness:
  "sig_valid SIGTERM \<and>
   (\<exists>st'. setTerminateSignal (new_UnixSignalListener :: nat UnixSignalListener) SIGTERM
            = Return () st' \<and>
          listen_loop st' [(SIGTERM, 0), (SIGTERM, 0)] \<lparr>sigmask = {SIGTERM}, world = 5\<rparr>
            = Finished ([(SIGTERM, 0)], \<lparr>sigmask = {SIGTERM}, world = 5\<rparr>))"
proof -
  have v: "sig_valid SIGTERM"
    by (simp add: sig_valid_def signal_h_defs)
  from convenience_registrations
    [of "new_UnixSignalListener :: nat UnixSignalListener" SIGTERM 0 "[(SIGTERM, 0)]"
       "\<lparr>sigmask = {SIGTERM}, world = 5\<rparr>"]
  show ?thesis using v by blast
qed


section \<open>Entering the loop\<close>

text \<open>
  C6. \<^verbatim>\<open>listen\<close> checks its requirements first, in the order of \<^verbatim>\<open>checkRequirements\<close>.
  On a listener that was not initialised it throws "UnixSignalListener was not initialized";
  on an initialised one whose registry (or signal set) is empty it throws "There are no
  signal handlers to listen". Whenever the registry is empty it throws. In each case the
  thread is left as it was: the signal mask is not touched and no wait is made.
\<close>

theorem listen_checks_requirements_first:
  "(\<not> mIsInited st \<longrightarrow>
      listen st evs p =
        Aborted (runtime_error ''UnixSignalListener was not initialized'') (evs, p)) \<and>
   (mIsInited st \<and> (Mapping.is_empty (mHandlers st) \<or> mSetHandlers st = {}) \<longrightarrow>
      listen st evs p =
        Aborted (runtime_error ''There are no signal handlers to listen'') (evs, p)) \<and>
   (Mapping.is_empty (mHandlers st) \<longrightarrow> (\<exists>e. listen st evs p = Aborted e (evs, p)))"
  by (auto simp: listen_def checkRequirements_def sigisemptyset_def)

theorem listen_checks_requirements_first_witness:
  "\<not> mIsInited (new_UnixSignalListener :: unit UnixSignalListener) \<and>
   listen (new_UnixSignalListener :: unit UnixSignalListener) [(SIGTERM, 0)]
       \<lparr>sigmask = {SIGINT}, world = ()\<rparr> =
     Aborted (runtime_error ''UnixSignalListener was not initialized'')
       ([(SIGTERM, 0)], \<lparr>sigmask = {SIGINT}, world = ()\<rparr>) \<and>
   mIsInited (new_UnixSignalListener\<lparr>mIsInited := True\<rparr> :: unit UnixSignalListener) \<and>
   Mapping.is_empty (mHandlers (new_UnixSignalListener\<lparr>mIsInited := True\<rparr> :: unit UnixSignalListener)) \<and>
   listen (new_UnixSignalListener\<lparr>mIsInited := True\<rparr> :: unit UnixSignalListener) [(SIGTERM, 0)]
       \<lparr>sigmask = {SIGINT}, world = ()\<rparr> =
     Aborted (runtime_error ''There are no signal handlers to listen'')
       ([(SIGTERM, 0)], \<lparr>sigmask = {SIGINT}, world = ()\<rparr>)"
  using
    listen_checks_requirements_first
      [of "new_UnixSignalListener :: unit UnixSignalListener" "[(SIGTERM, 0)]"
          "\<lparr>sigmask = {SIGINT}, world = ()\<rparr>"]
    listen_checks_requirements_first
      [of "new_UnixSignalListener\<lparr>mIsInited := True\<rparr> :: unit UnixSignalListener"
          "[(SIGTERM, 0)]" "\<lparr>sigmask = {SIGINT}, world = ()\<rparr>"]
  by (simp add: new_UnixSignalListener_def)

text \<open>
  C1, as the code has it. Once the requirements are met, \<^verbatim>\<open>listen\<close> sets the thread's
  signal mask to \<^verbatim>\<open>mSetHandlers\<close> with \<^verbatim>\<open>SIG_SETMASK\<close>, and nothing in the loop sets it again.
  So however far the loop has run, and however it ended, the blocked signals are the
  signals of the signal set (less \<^verbatim>\<open>SIGKILL\<close> and \<^verbatim>\<open>SIGSTOP\<close>, which cannot be blocked):
  the registered signals are blocked, which is what \<^verbatim>\<open>sigtimedwait\<close> needs to take them
  synchronously, and every other signal is unblocked.
\<close>

theorem listen_blocks_exactly_the_signal_set:
  assumes "mIsInited st" and "mSetHandlers st \<noteq> {}" and "\<not> Mapping.is_empty (mHandlers st)"
  shows "sigmask (snd (run_state (listen st evs p))) = mSetHandlers st - {SIGKILL, SIGSTOP}"
  using checkRequirements_ready [OF assms]
  by (simp add: listen_ready listen_loop_sigmask)


theorem listen_blocks_exactly_the_signal_set_witness:
  "mIsInited (fst (example_setup id \<lparr>sigmask = {}, world = ()\<rparr>)) \<and>
   mSetHandlers (fst (example_setup id \<lparr>sigmask = {}, world = ()\<rparr>)) \<noteq> {} \<and>
   \<not> Mapping.is_empty (mHandlers (fst (example_setup id \<lparr>sigmask = {}, world = ()\<rparr>))) \<and>
   sigmask (snd (run_state
      (listen (fst (example_setup id \<lparr>sigmask = {}, world = ()\<rparr>)) [(- 1, EAGAIN), (SIGTERM, 0)]
         (snd (example_setup id \<lparr>sigmask = {}, world = ()\<rparr>))))) = {SIGTERM}"
proof -
  let ?st = "fst (example_setup id \<lparr>sigmask = {}, world = ()\<rparr>)"
  have 1: "mIsInited ?st" and 2: "mSetHandlers ?st \<noteq> {}"
    and 3: "\<not> Mapping.is_empty (mHandlers ?st)"
    by (simp_all add: example_setup_eval)
  have 4: "mSetHandlers ?st - {SIGKILL, SIGSTOP} = {SIGTERM}"
    by (simp add: example_setup_eval signal_h_defs)
  from listen_blocks_exactly_the_signal_set [OF 1 2 3] 1 2 3 4 show ?thesis
    by simp
qed

text \<open>
  C1, as the specification words it, fails on \<^verbatim>\<open>main\<close> of \<^verbatim>\<open>example.cpp\<close>. \<^verbatim>\<open>SIGINT\<close> is
  not registered; it is blocked after \<^verbatim>\<open>init\<close> and no longer blocked while \<^verbatim>\<open>listen\<close>
  waits. \<^verbatim>\<open>SIGTERM\<close> is registered, and it is blocked while \<^verbatim>\<open>listen\<close> waits.
\<close>

theorem listen_mask_counterexample:
  "SIGINT \<notin> mSetHandlers (fst (example_setup id \<lparr>sigmask = {}, world = ()\<rparr>)) \<and>
   SIGINT \<in> sigmask (snd (example_setup id \<lparr>sigmask = {}, world = ()\<rparr>)) \<and>
   SIGINT \<notin> sigmask (snd (run_state (example_main id [] \<lparr>sigmask = {}, world = ()\<rparr>))) \<and>
   SIGTERM \<in> mSetHandlers (fst (example_setup id \<lparr>sigmask = {}, world = ()\<rparr>)) \<and>
   SIGTERM \<in> sigmask (snd (run_state (example_main id [] \<lparr>sigmask = {}, world = ()\<rparr>))) \<and>
   example_main id [] \<lparr>sigmask = {}, world = ()\<rparr> =
     Waiting ([], \<lparr>sigmask = {SIGTERM}, world = ()\<rparr>)"
proof -
  have run: "example_main id [] \<lparr>sigmask = {}, world = ()\<rparr> =
      Waiting ([], \<lparr>sigmask = {SIGTERM}, world = ()\<rparr>)"
    by (simp add: example_main_def example_setup_eval listen_def checkRequirements_def
          sigisemptyset_def pthread_sigmask_def signal_h_defs)
  have before: "SIGINT \<in> sigmask (snd (example_setup id \<lparr>sigmask = {}, world = ()\<rparr>))"
    using SIGINT_in_sigfillset by (simp add: example_setup_eval signal_h_defs)
  show ?thesis
    unfolding run using before by (simp add: example_setup_eval signal_h_defs)
qed

section \<open>Inside the loop\<close>

text \<open>
  C2. Whatever sequence of public calls configured the listener (the constructor, then
  \<^verbatim>\<open>init\<close>, \<^verbatim>\<open>setHandler\<close>, \<^verbatim>\<open>setTerminateSignal\<close>, \<^verbatim>\<open>setSigIgnore\<close> and \<^verbatim>\<open>setTimeoutHandler\<close>
  in any number and order, failed calls included), every signal of the signal set has an
  entry in the registry, so dispatching it finds the entry. When \<^verbatim>\<open>sigtimedwait\<close> returns
  only signals of the set it was given, \<^verbatim>\<open>listen\<close> never throws the internal error of
  \<^verbatim>\<open>signalProcessing\<close>.
\<close>

theorem registry_covers_signal_set:
  assumes "\<forall>ev \<in> set evs. 0 < fst ev \<longrightarrow> fst ev \<in> mSetHandlers (fst (configure cs p))"
  shows "mSetHandlers (fst (configure cs p)) \<subseteq> Mapping.keys (mHandlers (fst (configure cs p))) \<and>
         (\<forall>sg \<in> mSetHandlers (fst (configure cs p)).
            \<exists>r q'. signalProcessing (fst (configure cs p)) sg q = Return r q') \<and>
         listen (fst (configure cs p)) evs q \<noteq>
           Aborted (runtime_error ''We should never be here! Check the code'') s"
proof -
  let ?st = "fst (configure cs p)"
  have keys: "mSetHandlers ?st = Mapping.keys (mHandlers ?st)"
    using in_step_configure [of cs p] by (simp add: in_step_def)
  have found: "\<exists>r q'. signalProcessing ?st sg q = Return r q'" if "sg \<in> mSetHandlers ?st" for sg
  proof -
    from that keys obtain h t where "Mapping.lookup (mHandlers ?st) sg = Some (h, t)"
      by (auto simp: keys_dom_lookup)
    then show ?thesis
      by (simp add: signalProcessing_entry)
  qed
  have loop: "listen_loop ?st evs q' \<noteq> Aborted internal_error s" for q'
    using keys assms by (intro listen_loop_no_internal_error) simp_all
  have "listen ?st evs q \<noteq> Aborted internal_error s"
  proof (cases "checkRequirements ?st = Return () ()")
    case True
    then show ?thesis by (simp add: listen_ready loop)
  next
    case False
    with checkRequirements_cases [of ?st] obtain e where e: "checkRequirements ?st = Throw e ()"
      by blast
    with checkRequirements_not_internal [of ?st "()"] have "e \<noteq> internal_error"
      by auto
    with e show ?thesis by (simp add: listen_not_ready)
  qed
  with keys found show ?thesis
    by (simp add: internal_error_def)
qed

theorem registry_covers_signal_set_witness:
  "0 < SIGTERM \<and>
   SIGTERM \<in> mSetHandlers (fst (configure
      [SetHandler 0 (Some Suc) False, Init, SetTerminateSignal SIGTERM, SetTimeoutHandler 1 None]
      \<lparr>sigmask = {}, world = 0\<rparr>)) \<and>
   SIGTERM \<in> Mapping.keys (mHandlers (fst (configure
      [SetHandler 0 (Some Suc) False, Init, SetTerminateSignal SIGTERM, SetTimeoutHandler 1 None]
      \<lparr>sigmask = {}, world = 0\<rparr>))) \<and>
   listen (fst (configure
      [SetHandler 0 (Some Suc) False, Init, SetTerminateSignal SIGTERM, SetTimeoutHandler 1 None]
      \<lparr>sigmask = {}, world = 0\<rparr>)) [(SIGTERM, 0)] \<lparr>sigmask = {}, world = 0\<rparr> \<noteq>
     Aborted (runtime_error ''We should never be here! Check the code'')
       ([], \<lparr>sigmask = {}, world = 0\<rparr>)"
proof -
  let ?cs = "[SetHandler 0 (Some Suc) False, Init, SetTerminateSignal SIGTERM,
              SetTimeoutHandler 1 None] :: nat call list"
  let ?p = "\<lparr>sigmask = {}, world = 0::nat\<rparr>"
  have reg: "mSetHandlers (fst (configure ?cs ?p)) = {SIGTERM}"
    by (simp add: configure_def init_def pthread_sigmask_def setHandler_def setTerminateSignal_def
          setTimeoutHandler_def sigaddset_def sig_valid_def new_UnixSignalListener_def
          sigemptyset_def SIGTERM_def NSIG_def)
  have pos: "0 < SIGTERM"
    by (simp add: SIGTERM_def)
  have hyp: "\<forall>ev \<in> set [(SIGTERM, 0::int)]. 0 < fst ev \<longrightarrow> fst ev \<in> mSetHandlers (fst (configure ?cs ?p))"
    by (simp add: reg)
  from registry_covers_signal_set [OF hyp, of ?p "([], ?p)"] reg pos show ?thesis
    by auto
qed


text \<open>
  C3. Let the loop have consumed the results \<open>pre\<close> and sit in \<^verbatim>\<open>sigtimedwait\<close> with the thread
  in state \<open>p'\<close>. When the next result is a signal \<open>s\<close> whose entry has the terminate flag
  set, \<^verbatim>\<open>listen\<close> returns: the handler of the entry, when it is not empty, has run once on
  \<open>p'\<close> and nothing else has, and none of the later results \<open>rest\<close> has been consumed.
\<close>

theorem terminating_signal_returns:
  assumes "Mapping.lookup (mHandlers st) s = Some (h, True)" and "0 < s"
    and "listen st pre p = Waiting ([], p')"
  shows "listen st (pre @ (s, e) # rest) p =
           Finished (rest, case h of None \<Rightarrow> p' | Some f \<Rightarrow> p'\<lparr>world := f (world p')\<rparr>)"
  using assms by (simp add: listen_append signalProcessing_entry)

theorem terminating_signal_returns_witness:
  "Mapping.lookup (mHandlers (fst (example_setup Suc \<lparr>sigmask = {}, world = 0\<rparr>))) SIGTERM =
     Some (Some Suc, True) \<and>
   0 < SIGTERM \<and>
   listen (fst (example_setup Suc \<lparr>sigmask = {}, world = 0\<rparr>)) [(- 1, EINTR)]
       \<lparr>sigmask = {}, world = 0\<rparr> =
     Waiting ([], \<lparr>sigmask = {SIGTERM}, world = 0\<rparr>) \<and>
   listen (fst (example_setup Suc \<lparr>sigmask = {}, world = 0\<rparr>))
       [(- 1, EINTR), (SIGTERM, 0), (SIGTERM, 0), (- 1, EAGAIN)]
       \<lparr>sigmask = {}, world = 0\<rparr> =
     Finished ([(SIGTERM, 0), (- 1, EAGAIN)], \<lparr>sigmask = {SIGTERM}, world = 1\<rparr>)"
proof -
  let ?st = "fst (example_setup Suc \<lparr>sigmask = {}, world = 0\<rparr>)"
  have 1: "Mapping.lookup (mHandlers ?st) SIGTERM = Some (Some Suc, True)"
    by (simp add: example_setup_eval)
  have 2: "0 < SIGTERM"
    by (simp add: SIGTERM_def)
  have 3: "listen ?st [(- 1, EINTR)] \<lparr>sigmask = {}, world = 0\<rparr> =
      Waiting ([], \<lparr>sigmask = {SIGTERM}, world = 0\<rparr>)"
    by (simp add: example_setup_eval listen_def checkRequirements_def sigisemptyset_def
          pthread_sigmask_def sigtimedwaitErrorHandler_def signal_h_defs)
  from terminating_signal_returns [OF 1 2 3, of 0 "[(SIGTERM, 0), (- 1, EAGAIN)]"] 1 2 3
  show ?thesis by simp
qed




text \<open>
  C9. Let the loop sit in \<^verbatim>\<open>sigtimedwait\<close> after the results \<open>pre\<close>. When the wait fails with
  \<^verbatim>\<open>EINVAL\<close>, \<^verbatim>\<open>listen\<close> throws "Timeout invalid" to its caller at once: the thread's state is
  the one it had, no handler ran, and none of the later results \<open>rest\<close> is consumed, so the
  wait is not tried again.
\<close>

theorem invalid_timeout_aborts:
  assumes "ret \<le> 0" and "listen st pre p = Waiting ([], p')"
  shows "listen st (pre @ (ret, EINVAL) # rest) p =
           Aborted (runtime_error ''Timeout invalid'') (rest, p')"
  using assms by (simp add: listen_append sigtimedwaitErrorHandler_def signal_h_defs)

theorem invalid_timeout_aborts_witness:
  "(- 1 :: int) \<le> 0 \<and>
   listen (fst (example_setup Suc \<lparr>sigmask = {}, world = 0\<rparr>)) []
       \<lparr>sigmask = {}, world = 0\<rparr> =
     Waiting ([], \<lparr>sigmask = {SIGTERM}, world = 0\<rparr>) \<and>
   listen (fst (example_setup Suc \<lparr>sigmask = {}, world = 0\<rparr>))
       ([] @ (- 1, EINVAL) # [(SIGTERM, 0)]) \<lparr>sigmask = {}, world = 0\<rparr> =
     Aborted (runtime_error ''Timeout invalid'')
       ([(SIGTERM, 0)], \<lparr>sigmask = {SIGTERM}, world = 0\<rparr>)"
proof -
  let ?st = "fst (example_setup Suc \<lparr>sigmask = {}, world = 0\<rparr>)"
  have 1: "(- 1 :: int) \<le> 0"
    by simp
  have 2: "listen ?st [] \<lparr>sigmask = {}, world = 0\<rparr> =
      Waiting ([], \<lparr>sigmask = {SIGTERM}, world = 0\<rparr>)"
    by (simp add: example_setup_eval listen_def checkRequirements_def sigisemptyset_def
          pthread_sigmask_def signal_h_defs)
  from invalid_timeout_aborts [OF 1 2, of "[(SIGTERM, 0)]"] 1 2
  show ?thesis by blast
qed

text \<open>
  C5 does not hold for every timeout handler that \<^verbatim>\<open>setTimeoutHandler\<close> accepts.
  \<^verbatim>\<open>signalProcessing\<close> tests a signal's handler against \<^verbatim>\<open>nullptr\<close> before it calls it;
  \<^verbatim>\<open>sigtimedwaitErrorHandler\<close> calls \<^verbatim>\<open>mTimeoutHandler\<close> without the test. After
  \<^verbatim>\<open>init()\<close>, \<^verbatim>\<open>setTerminateSignal(SIGTERM)\<close> and \<^verbatim>\<open>setTimeoutHandler(1, nullptr)\<close>, the first
  timeout of the wait makes \<^verbatim>\<open>listen\<close> throw \<^verbatim>\<open>std::bad_function_call\<close>.
\<close>

theorem empty_timeout_handler_throws:
  "listen
     (fst (configure [Init, SetTerminateSignal SIGTERM, SetTimeoutHandler 1 None]
        \<lparr>sigmask = {}, world = ()\<rparr>))
     [(- 1, EAGAIN), (SIGTERM, 0)]
     (snd (configure [Init, SetTerminateSignal SIGTERM, SetTimeoutHandler 1 None]
        \<lparr>sigmask = {}, world = ()\<rparr>)) =
   Aborted bad_function_call ([(SIGTERM, 0)], \<lparr>sigmask = {SIGTERM}, world = ()\<rparr>)"
  by (simp add: configure_def init_def pthread_sigmask_def setHandler_def setTerminateSignal_def
        setTimeoutHandler_def sigaddset_def sig_valid_def new_UnixSignalListener_def
        sigemptyset_def listen_def checkRequirements_def sigisemptyset_def
        sigtimedwaitErrorHandler_def signal_h_defs)

end
